theory Spec2Isabelle
  imports Main "HOL-Library.Sublist"
begin

section \<open>The terminal user interface of ranger: \<open>ranger/gui/ui.py\<close>\<close>

text \<open>
  The class \<open>UI\<close> drives a curses terminal and hands decoded keys to its collaborators
  (the widget tree, the environment with its key buffer, the file manager).  Each method
  is embedded as a function from the state before the call to a triple: how the call
  ended (\<open>Inl\<close> an exception that left the method, \<open>Inr\<close> its return value), the list of
  calls the method made, in order, and the state after the call.

  The collaborators are not part of \<open>ui.py\<close>.  They are parameters of the model (the
  record \<open>collab\<close>), and any of them may raise.  Two of them are actions: the widget
  tree's \<open>press\<close> and the function of a command.  An action can call back into the \<open>UI\<close>
  object (the comment at lines 72 to 77 of \<open>ui.py\<close> speaks of actions that suspend and
  re-initialize the ui), so it is a function on the whole state: the attributes of the
  \<open>UI\<close> object, the terminal, the input queue and the collaborators' own state \<open>'x\<close>.
  The others (the key buffer and the environment, the notification sink, the hooks of
  \<open>initialize\<close> and \<open>draw\<close>) are functions on \<open>'x\<close> alone.  The calls that a collaborator
  makes in its turn are not recorded.
\<close>

subsection \<open>Exceptions\<close>

text \<open>
  Python's \<open>except Exception\<close> catches the instances of \<open>Exception\<close> only; \<open>SystemExit\<close>
  and \<open>KeyboardInterrupt\<close> derive from \<open>BaseException\<close> and pass through it.  A bare
  \<open>except:\<close> catches everything.  \<open>CursesError\<close> is \<open>_curses.error\<close>.
\<close>

datatype exn = CursesError | Exception string | SystemExit | KeyboardInterrupt

fun is_Exception :: "exn \<Rightarrow> bool" where
  "is_Exception CursesError = True"
| "is_Exception (Exception msg) = True"
| "is_Exception SystemExit = False"
| "is_Exception KeyboardInterrupt = False"

subsection \<open>The terminal\<close>

datatype cbreak_mode = Cooked | Cbreak_on | Half_delay nat

text \<open>
  The part of the curses state that \<open>ui.py\<close> sets.  \<open>can_curs_set\<close> and
  \<open>has_default_colors\<close> are capabilities of the terminal: \<open>curses.curs_set\<close> and
  \<open>curses.use_default_colors\<close> raise on a terminal without them.  \<open>ended\<close> holds between
  \<open>endwin()\<close> and the next \<open>refresh()\<close>.
\<close>

record terminal =
  leave_ok :: bool
  keypad_on :: bool
  no_delay :: bool
  cbreak :: cbreak_mode
  echo_on :: bool
  cursor_vis :: nat
  can_curs_set :: bool
  has_default_colors :: bool
  colors_started :: bool
  default_colors :: bool
  mouse_mask :: nat
  mouse_interval :: nat
  ended :: bool
  maxyx :: "nat \<times> nat"

text \<open>
  How long a read waits when no code is queued: in half-delay mode the given tenths of
  a second, whatever \<open>nodelay\<close> says; otherwise not at all with \<open>nodelay(1)\<close>, and until a
  code arrives with \<open>nodelay(0)\<close>.
\<close>

datatype wait = Blocking | No_wait | Tenths nat

definition input_wait :: "terminal \<Rightarrow> wait" where
  "input_wait t =
     (case cbreak t of
        Half_delay n \<Rightarrow> Tenths n
      | other \<Rightarrow> if no_delay t then No_wait else Blocking)"

text \<open>
  Every call a method makes, to curses, to a collaborator or to another method.  A read
  is recorded with the wait that was in force.
\<close>

datatype call =
    Leaveok bool | Keypad bool | Nodelay bool | Getch wait | Getmaxyx | Touchwin | Refresh
  | Cbreak | Nocbreak | Echo | Noecho | Halfdelay nat | Curs_set nat
  | Start_color | Use_default_colors | Mousemask nat | Mouseinterval nat
  | Ungetmouse | Endwin | Flushinp
  | Hint | Key_append int | Press int | Hide_bookmarks | Set_env_cmd
  | Run_function | Notify exn | Kbuf_clear
  | Setup | Set_termsize "nat \<times> nat" | Draw_widgets | Stdout_write string
  | Handle_key int | Set_load_mode bool | Update_size

subsection \<open>The state of the \<open>UI\<close> object\<close>

text \<open>
  \<open>pending\<close> is the terminal's input queue: the codes that are available at once.
  \<open>mousemask\<close> is the class attribute of that name (a constant of the curses module).
\<close>

record 'x ui =
  is_set_up :: bool
  load_mode :: bool
  draw_title :: bool
  mousemask :: nat
  tty :: terminal
  pending :: "int list"
  ext :: 'x

type_synonym ('x, 'a) act = "'x ui \<Rightarrow> (exn + 'a) \<times> call list \<times> 'x ui"

type_synonym ('x, 'a) callback = "'x \<Rightarrow> (exn + 'a) \<times> 'x"

type_synonym ('x, 'a) action = "'x ui \<Rightarrow> (exn + 'a) \<times> 'x ui"

definition ret :: "'a \<Rightarrow> ('x, 'a) act" where
  "ret v s = (Inr v, [], s)"

definition bind_act :: "('x, 'a) act \<Rightarrow> ('a \<Rightarrow> ('x, 'b) act) \<Rightarrow> ('x, 'b) act" where
  "bind_act m f s =
     (case m s of
        (Inl e, l, s') \<Rightarrow> (Inl e, l, s')
      | (Inr v, l, s') \<Rightarrow> (case f v s' of (r, l', s'') \<Rightarrow> (r, l @ l', s'')))"

definition then_act :: "('x, unit) act \<Rightarrow> ('x, 'b) act \<Rightarrow> ('x, 'b) act" where
  "then_act m k = bind_act m (\<lambda>_. k)"

text \<open>\<open>try: m except <the exceptions that catches holds of> as e: h e\<close>\<close>

definition try_except ::
  "('x, 'a) act \<Rightarrow> (exn \<Rightarrow> bool) \<Rightarrow> (exn \<Rightarrow> ('x, 'a) act) \<Rightarrow> ('x, 'a) act" where
  "try_except m catches h s =
     (case m s of
        (Inl e, l, s') \<Rightarrow>
          (if catches e then (case h e s' of (r, l', s'') \<Rightarrow> (r, l @ l', s''))
           else (Inl e, l, s'))
      | (Inr v, l, s') \<Rightarrow> (Inr v, l, s'))"

text \<open>A call to a collaborator: it is recorded, and acts on the collaborators' state.\<close>

definition call_ext :: "call \<Rightarrow> ('x, 'a) callback \<Rightarrow> ('x, 'a) act" where
  "call_ext ev cb s = (case cb (ext s) of (r, x') \<Rightarrow> (r, [ev], s\<lparr>ext := x'\<rparr>))"

text \<open>A call to an action: it is recorded, and may change the whole state.\<close>

definition call_action :: "call \<Rightarrow> ('x, 'a) action \<Rightarrow> ('x, 'a) act" where
  "call_action ev cb s = (case cb s of (r, s') \<Rightarrow> (r, [ev], s'))"

text \<open>A call to a method of the same object: it is recorded before the calls it makes.\<close>

definition call_self :: "call \<Rightarrow> ('x, 'a) act \<Rightarrow> ('x, 'a) act" where
  "call_self ev m s = (case m s of (r, l, s') \<Rightarrow> (r, ev # l, s'))"

definition assign :: "('x ui \<Rightarrow> 'x ui) \<Rightarrow> ('x, unit) act" where
  "assign f s = (Inr (), [], f s)"

subsection \<open>curses\<close>

text \<open>
  What each curses call does to the terminal.  Three calls can fail: \<open>curs_set\<close> and
  \<open>use_default_colors\<close> on a terminal without the capability, and \<open>endwin()\<close> when the
  screen has not been refreshed since the last \<open>endwin()\<close>.  \<open>cbreak()\<close> and \<open>nocbreak()\<close>
  leave the half-delay mode; \<open>endwin()\<close> detaches until the next refresh.
\<close>

fun curses_effect :: "call \<Rightarrow> terminal \<Rightarrow> exn + terminal" where
  "curses_effect (Leaveok b) t = Inr (t\<lparr>leave_ok := b\<rparr>)"
| "curses_effect (Keypad b) t = Inr (t\<lparr>keypad_on := b\<rparr>)"
| "curses_effect (Nodelay b) t = Inr (t\<lparr>no_delay := b\<rparr>)"
| "curses_effect Cbreak t = Inr (t\<lparr>cbreak := Cbreak_on\<rparr>)"
| "curses_effect Nocbreak t = Inr (t\<lparr>cbreak := Cooked\<rparr>)"
| "curses_effect Echo t = Inr (t\<lparr>echo_on := True\<rparr>)"
| "curses_effect Noecho t = Inr (t\<lparr>echo_on := False\<rparr>)"
| "curses_effect (Halfdelay n) t = Inr (t\<lparr>cbreak := Half_delay n\<rparr>)"
| "curses_effect (Curs_set v) t =
     (if can_curs_set t then Inr (t\<lparr>cursor_vis := v\<rparr>) else Inl CursesError)"
| "curses_effect Start_color t = Inr (t\<lparr>colors_started := True\<rparr>)"
| "curses_effect Use_default_colors t =
     (if has_default_colors t then Inr (t\<lparr>default_colors := True\<rparr>) else Inl CursesError)"
| "curses_effect (Mousemask m) t = Inr (t\<lparr>mouse_mask := m\<rparr>)"
| "curses_effect (Mouseinterval n) t = Inr (t\<lparr>mouse_interval := n\<rparr>)"
| "curses_effect Endwin t = (if ended t then Inl CursesError else Inr (t\<lparr>ended := True\<rparr>))"
| "curses_effect Refresh t = Inr (t\<lparr>ended := False\<rparr>)"
| "curses_effect other t = Inr t"

definition curses :: "call \<Rightarrow> ('x, unit) act" where
  "curses ev s =
     (case curses_effect ev (tty s) of
        Inl e \<Rightarrow> (Inl e, [ev], s)
      | Inr t \<Rightarrow> (Inr (), [ev], s\<lparr>tty := t\<rparr>))"

text \<open>
  \<open>win.getch()\<close>: the next queued code, or -1 when the queue is empty (what curses returns
  without delay in no-delay mode, and at the end of the wait in half-delay mode).  No code
  arrives during a call: a blocking read of an empty queue, which would wait for one, is
  given -1 as well.
\<close>

definition getch :: "('x, int) act" where
  "getch s =
     (case pending s of
        [] \<Rightarrow> (Inr (- 1), [Getch (input_wait (tty s))], s)
      | k # ks \<Rightarrow> (Inr k, [Getch (input_wait (tty s))], s\<lparr>pending := ks\<rparr>))"

definition KEY_MOUSE :: int where
  "KEY_MOUSE = 409"

text \<open>\<open>curses.ungetmouse(0,0,0,0,0)\<close> puts a mouse event at the head of the input queue.\<close>

definition ungetmouse :: "('x, unit) act" where
  "ungetmouse s = (Inr (), [Ungetmouse], s\<lparr>pending := KEY_MOUSE # pending s\<rparr>)"

definition flushinp :: "('x, unit) act" where
  "flushinp s = (Inr (), [Flushinp], s\<lparr>pending := []\<rparr>)"

definition getmaxyx :: "('x, nat \<times> nat) act" where
  "getmaxyx s = (Inr (maxyx (tty s)), [Getmaxyx], s)"

subsection \<open>The collaborators\<close>

record settings =
  show_cursor :: bool
  flushinput :: bool
  update_title :: bool
  shorten_title :: int

text \<open>
  \<open>kbuf.command\<close> is \<open>None\<close> (or false) or a command; \<open>cmd.function\<close> is \<open>None\<close> or a
  callable, which is called with \<open>CommandArgs.from_widget(self.fm)\<close>.
\<close>

datatype 'x command = Command (cmd_function: "('x, unit) action option")

record 'x collab =
  hint :: "('x, unit) callback option"
  key_append :: "int \<Rightarrow> ('x, unit) callback"
  press :: "int \<Rightarrow> ('x, bool) action"
  hide_bookmarks :: "('x, unit) callback"
  notify :: "exn \<Rightarrow> ('x, unit) callback"
  kbuf_command :: "'x \<Rightarrow> 'x command option"
  kbuf_failure :: "'x \<Rightarrow> bool"
  kbuf_done :: "'x \<Rightarrow> bool"
  kbuf_clear :: "('x, unit) callback"
  set_env_cmd :: "'x command \<Rightarrow> 'x \<Rightarrow> 'x"
  setup_hook :: "('x, unit) callback"
  set_termsize :: "nat \<times> nat \<Rightarrow> 'x \<Rightarrow> 'x"
  draw_widgets :: "('x, unit) callback"
  get_settings :: "'x \<Rightarrow> settings"
  cwd_path :: "'x \<Rightarrow> string"
  home_path :: "'x \<Rightarrow> string"

subsection \<open>\<open>UI.update_size\<close>, \<open>UI.initialize\<close>, \<open>UI.suspend\<close>, \<open>UI.set_load_mode\<close>\<close>

definition update_size :: "'x collab \<Rightarrow> ('x, unit) act" where
  "update_size c =
     bind_act getmaxyx (\<lambda>yx.
     call_ext (Set_termsize yx) (\<lambda>x. (Inr (), set_termsize c yx x)))"

definition initialize :: "'x collab \<Rightarrow> ('x, unit) act" where
  "initialize c =
     then_act (curses (Leaveok False)) (
     then_act (curses (Keypad True)) (
     then_act (assign (\<lambda>s. s\<lparr>load_mode := False\<rparr>)) (
     then_act (curses Cbreak) (
     then_act (curses Noecho) (
     then_act (curses (Halfdelay 20)) (
     then_act (try_except
        (\<lambda>s. curses (Curs_set (if show_cursor (get_settings c (ext s)) then 1 else 0)) s)
        (\<lambda>e. True) (\<lambda>e. ret ())) (
     then_act (curses Start_color) (
     then_act (curses Use_default_colors) (
     then_act (\<lambda>s. curses (Mousemask (mousemask s)) s) (
     then_act (curses (Mouseinterval 0)) (
     then_act ungetmouse (
     then_act (\<lambda>s.
        if \<not> is_set_up s then
          then_act (assign (\<lambda>s. s\<lparr>is_set_up := True\<rparr>)) (call_ext Setup (setup_hook c)) s
        else ret () s) (
     call_self Update_size (update_size c))))))))))))))"

definition suspend :: "('x, unit) act" where
  "suspend =
     then_act (curses (Keypad False)) (
     then_act (curses Nocbreak) (
     then_act (curses Echo) (
     then_act (try_except (curses (Curs_set 1)) (\<lambda>e. True) (\<lambda>e. ret ())) (
     then_act (curses (Mousemask 0)) (
     curses Endwin)))))"

definition set_load_mode :: "bool \<Rightarrow> ('x, unit) act" where
  "set_load_mode boolean s =
     (if boolean \<noteq> load_mode s then
        then_act (assign (\<lambda>s. s\<lparr>load_mode := boolean\<rparr>)) (
          if boolean then then_act (curses Cbreak) (curses (Nodelay True))
          else then_act (curses (Nodelay False)) (curses (Halfdelay 20))) s
      else ret () s)"

subsection \<open>\<open>UI.handle_key\<close>\<close>

definition run_command :: "'x collab \<Rightarrow> 'x command \<Rightarrow> ('x, unit) act" where
  "run_command c cmd =
     (case cmd_function cmd of
        Some f \<Rightarrow>
          then_act
            (try_except (call_action Run_function f) is_Exception
               (\<lambda>error. call_ext (Notify error) (notify c error)))
            (\<lambda>s. if kbuf_done c (ext s) then call_ext Kbuf_clear (kbuf_clear c) s
                  else ret () s)
      | None \<Rightarrow> call_ext Kbuf_clear (kbuf_clear c))"

definition handle_key :: "'x collab \<Rightarrow> int \<Rightarrow> ('x, unit) act" where
  "handle_key c key =
     then_act (case hint c of Some h \<Rightarrow> call_ext Hint h | None \<Rightarrow> ret ()) (
     then_act (call_ext (Key_append key) (key_append c key)) (
     bind_act (call_action (Press key) (press c key)) (\<lambda>consumed.
       if consumed then ret ()
       else
         (\<lambda>s0. let cmd = kbuf_command c (ext s0) in
           then_act (call_ext Hide_bookmarks (hide_bookmarks c)) (\<lambda>s.
             if kbuf_failure c (ext s) then call_ext Kbuf_clear (kbuf_clear c) s
             else
               (case cmd of
                  None \<Rightarrow> ret () s
                | Some cm \<Rightarrow>
                    then_act
                      (call_ext Set_env_cmd (\<lambda>x. (Inr (), set_env_cmd c cm x)))
                      (run_command c cm) s)) s0))))"

subsection \<open>\<open>UI.handle_input\<close>\<close>

text \<open>
  \<open>for n in range(8)\<close>: one read per round; \<open>getkey is not -1\<close> compares with the
  integer -1 (CPython shares the small integers, so identity is equality here).
\<close>

primrec probe :: "nat \<Rightarrow> int list \<Rightarrow> ('x, int list) act" where
  "probe 0 keys = ret keys"
| "probe (Suc n) keys =
     bind_act getch (\<lambda>getkey. probe n (if getkey \<noteq> - 1 then keys @ [getkey] else keys))"

text \<open>\<open>for key in keys: self.handle_key(key)\<close>\<close>

primrec replay :: "'x collab \<Rightarrow> int list \<Rightarrow> ('x, unit) act" where
  "replay c [] = ret ()"
| "replay c (key # keys) =
     then_act (call_self (Handle_key key) (handle_key c key)) (replay c keys)"

definition handle_input :: "'x collab \<Rightarrow> ('x, unit) act" where
  "handle_input c =
     bind_act getch (\<lambda>key.
       if key = 27 \<or> key = 195 then
         (\<lambda>s0. let previous_load_mode = load_mode s0 in
           then_act (call_self (Set_load_mode True) (set_load_mode True)) (
           bind_act (probe 8 [key]) (\<lambda>keys.
           then_act (replay c keys) (
           call_self (Set_load_mode previous_load_mode)
             (set_load_mode previous_load_mode)))) s0)
       else
         then_act (\<lambda>s. if flushinput (get_settings c (ext s)) then flushinp s else ret () s) (
         if key > 0 then call_self (Handle_key key) (handle_key c key) else ret ()))"

subsection \<open>\<open>UI.draw\<close>\<close>

definition os_sep :: char where
  "os_sep = CHR ''/''"

text \<open>The last occurrence of the separator: what is before it and what is after it.\<close>

fun split_last :: "char \<Rightarrow> string \<Rightarrow> (string \<times> string) option" where
  "split_last sep [] = None"
| "split_last sep (x # xs) =
     (case split_last sep xs of
        Some (a, b) \<Rightarrow> Some (x # a, b)
      | None \<Rightarrow> if x = sep then Some ([], xs) else None)"

fun rsplit_n :: "char \<Rightarrow> nat \<Rightarrow> string \<Rightarrow> string list" where
  "rsplit_n sep 0 s = [s]"
| "rsplit_n sep (Suc n) s =
     (case split_last sep s of
        None \<Rightarrow> [s]
      | Some (a, b) \<Rightarrow> rsplit_n sep n a @ [b])"

text \<open>
  \<open>s.rsplit(sep, maxsplit)\<close> for a separator of one character: at most \<open>maxsplit\<close> splits,
  the rightmost ones; a negative \<open>maxsplit\<close> is no limit (a string has no more
  separators than characters).
\<close>

definition rsplit :: "string \<Rightarrow> char \<Rightarrow> int \<Rightarrow> string list" where
  "rsplit s sep maxsplit =
     rsplit_n sep (if maxsplit < 0 then length s else nat maxsplit) s"

fun join :: "char \<Rightarrow> string list \<Rightarrow> string" where
  "join sep [] = []"
| "join sep [x] = x"
| "join sep (x # y # ys) = x @ sep # join sep (y # ys)"

definition startswith :: "string \<Rightarrow> string \<Rightarrow> bool" where
  "startswith s p = (take (length p) s = p)"

text \<open>Lines 209 to 215 of \<open>draw\<close>: the path that goes into the title.\<close>

definition title_path :: "string \<Rightarrow> string \<Rightarrow> int \<Rightarrow> string" where
  "title_path path home shorten =
     (let cwd = (if startswith path home then ''~'' @ drop (length home) path else path)
      in if shorten \<noteq> 0 then
           (case rsplit cwd os_sep shorten of
              [] \<Rightarrow> cwd
            | first # others \<Rightarrow> if os_sep \<in> set first then join os_sep others else cwd)
         else cwd)"

definition title_sequence :: "string \<Rightarrow> string" where
  "title_sequence cwd = CHR 0x1B # '']2;ranger:'' @ cwd @ [CHR 0x07]"

definition stdout_write :: "string \<Rightarrow> ('x, unit) act" where
  "stdout_write str s = (Inr (), [Stdout_write str], s)"

definition draw :: "'x collab \<Rightarrow> ('x, unit) act" where
  "draw c =
     then_act (curses Touchwin) (
     then_act (call_ext Draw_widgets (draw_widgets c)) (
     then_act (\<lambda>s.
        if draw_title s \<and> update_title (get_settings c (ext s)) then
          stdout_write (title_sequence
            (title_path (cwd_path c (ext s)) (home_path c (ext s))
               (shorten_title (get_settings c (ext s))))) s
        else ret () s) (
     curses Refresh)))"

subsection \<open>Reading a run\<close>

definition outcome :: "(exn + 'a) \<times> call list \<times> 'x ui \<Rightarrow> exn + 'a" where
  "outcome r = fst r"

definition calls_of :: "(exn + 'a) \<times> call list \<times> 'x ui \<Rightarrow> call list" where
  "calls_of r = fst (snd r)"

definition state_of :: "(exn + 'a) \<times> call list \<times> 'x ui \<Rightarrow> 'x ui" where
  "state_of r = snd (snd r)"

text \<open>The keys handed to \<open>handle_key\<close>, in order.\<close>

fun delivered :: "call list \<Rightarrow> int list" where
  "delivered [] = []"
| "delivered (Handle_key k # l) = k # delivered l"
| "delivered (e # l) = delivered l"

text \<open>The waits of the reads made, in order.\<close>

fun reads :: "call list \<Rightarrow> wait list" where
  "reads [] = []"
| "reads (Getch w # l) = w # reads l"
| "reads (e # l) = reads l"

text \<open>The calls to methods of the \<open>UI\<close> object itself that \<open>handle_input\<close> makes.\<close>

fun method_calls :: "call list \<Rightarrow> call list" where
  "method_calls [] = []"
| "method_calls (Handle_key k # l) = Handle_key k # method_calls l"
| "method_calls (Set_load_mode b # l) = Set_load_mode b # method_calls l"
| "method_calls (e # l) = method_calls l"


text \<open>The calls that \<open>handle_key\<close> can make once \<open>press\<close> has declined the key.\<close>

fun dispatch_call :: "call \<Rightarrow> bool" where
  "dispatch_call Hide_bookmarks = True"
| "dispatch_call Set_env_cmd = True"
| "dispatch_call Run_function = True"
| "dispatch_call (Notify e) = True"
| "dispatch_call Kbuf_clear = True"
| "dispatch_call e = False"

text \<open>The calls that \<open>handle_key\<close> can make.\<close>

fun collaborator_call :: "call \<Rightarrow> bool" where
  "collaborator_call Hint = True"
| "collaborator_call (Key_append k) = True"
| "collaborator_call (Press k) = True"
| "collaborator_call e = dispatch_call e"

text \<open>The attributes of the \<open>UI\<close> object, the terminal and its input queue.\<close>

definition ui_part :: "'x ui \<Rightarrow> bool \<times> bool \<times> bool \<times> nat \<times> terminal \<times> int list" where
  "ui_part s = (is_set_up s, load_mode s, draw_title s, mousemask s, tty s, pending s)"

text \<open>
  A run that made only calls of the kind \<open>P\<close> and left the part \<open>f\<close> of the state as it
  was.
\<close>

definition confined ::
  "('x ui \<Rightarrow> 'b) \<Rightarrow> (call \<Rightarrow> bool) \<Rightarrow> 'x ui \<Rightarrow> (exn + 'a) \<times> call list \<times> 'x ui \<Rightarrow> bool" where
  "confined f P s r = (f (state_of r) = f s \<and> list_all P (calls_of r))"

text \<open>The part \<open>f\<close> of the state does not depend on the collaborators' own state.\<close>

definition ui_only :: "('x ui \<Rightarrow> 'b) \<Rightarrow> bool" where
  "ui_only f = (\<forall>s x. f (s\<lparr>ext := x\<rparr>) = f s)"

text \<open>
  The actions of \<open>c\<close> leave the part \<open>f\<close> of the state as it was: \<open>press\<close>, and the function
  of every command that the key buffer of \<open>c\<close> can hold.
\<close>

definition stable :: "('x ui \<Rightarrow> 'b) \<Rightarrow> 'x collab \<Rightarrow> bool" where
  "stable f c =
     ((\<forall>key s. f (snd (press c key s)) = f s) \<and>
      (\<forall>x cmd g s. kbuf_command c x = Some cmd \<longrightarrow> cmd_function cmd = Some g \<longrightarrow>
         f (snd (g s)) = f s))"

text \<open>The first code queued is the Escape code or the lead byte 195.\<close>

definition lead_first :: "'x ui \<Rightarrow> bool" where
  "lead_first s = (case pending s of [] \<Rightarrow> False | k # ks \<Rightarrow> k = 27 \<or> k = 195)"

text \<open>While load mode is on, reads do not wait.\<close>

definition polling :: "'x ui \<Rightarrow> bool" where
  "polling s = (load_mode s \<longrightarrow> input_wait (tty s) = No_wait)"

subsection \<open>The life of a session\<close>

text \<open>
  A session is initialized, suspended and initialized again, any number of times.  An
  exception that leaves one of these calls is caught by the caller, and the session goes
  on with the next call.
\<close>

datatype lifecycle = Do_initialize | Do_suspend

primrec run_lifecycle :: "'x collab \<Rightarrow> lifecycle list \<Rightarrow> ('x, unit) act" where
  "run_lifecycle c [] = ret ()"
| "run_lifecycle c (step # steps) =
     then_act
       (try_except (case step of Do_initialize \<Rightarrow> initialize c | Do_suspend \<Rightarrow> suspend)
          (\<lambda>e. True) (\<lambda>e. ret ()))
       (run_lifecycle c steps)"

subsection \<open>Sample collaborators\<close>

text \<open>
  Modelled from the spec: the key buffer, the widget tree, the settings and the
  notification sink are not in \<open>ui.py\<close>.  These stand in for them where a method is run on
  a concrete input: a key buffer with \<open>append\<close>, \<open>clear\<close>, \<open>failure\<close>, \<open>done\<close> and
  \<open>command\<close>, a widget tree whose \<open>press\<close> answers \<open>consumes\<close>, and a notification sink
  that keeps what it receives (section 6 of the spec).
\<close>

record env_state =
  kbuf_keys :: "int list"
  notified :: "exn list"
  bookmarks_open :: bool
  termsize :: "nat \<times> nat"
  set_ups :: nat

definition sample_settings :: settings where
  "sample_settings =
     \<lparr>show_cursor = False, flushinput = True, update_title = True, shorten_title = 2\<rparr>"

definition sample :: "bool \<Rightarrow> env_state command option \<Rightarrow> bool \<Rightarrow> bool \<Rightarrow> env_state collab" where
  "sample consumes cmd failure done =
     \<lparr>hint = None,
      key_append = (\<lambda>key x. (Inr (), x\<lparr>kbuf_keys := kbuf_keys x @ [key]\<rparr>)),
      press = (\<lambda>key s. (Inr consumes, s)),
      hide_bookmarks = (\<lambda>x. (Inr (), x\<lparr>bookmarks_open := False\<rparr>)),
      notify = (\<lambda>e x. (Inr (), x\<lparr>notified := notified x @ [e]\<rparr>)),
      kbuf_command = (\<lambda>x. cmd),
      kbuf_failure = (\<lambda>x. failure),
      kbuf_done = (\<lambda>x. done),
      kbuf_clear = (\<lambda>x. (Inr (), x\<lparr>kbuf_keys := []\<rparr>)),
      set_env_cmd = (\<lambda>cm x. x),
      setup_hook = (\<lambda>x. (Inr (), x\<lparr>set_ups := Suc (set_ups x)\<rparr>)),
      set_termsize = (\<lambda>yx x. x\<lparr>termsize := yx\<rparr>),
      draw_widgets = (\<lambda>x. (Inr (), x)),
      get_settings = (\<lambda>x. sample_settings),
      cwd_path = (\<lambda>x. ''/home/alice/a/b/c/d''),
      home_path = (\<lambda>x. ''/home/alice'')\<rparr>"

text \<open>A command whose function raises, and a command without a function.\<close>

definition raising :: "exn \<Rightarrow> env_state command" where
  "raising e = Command (Some (\<lambda>s. (Inl e, s)))"

definition no_function :: "env_state command" where
  "no_function = Command None"



definition sample_env :: env_state where
  "sample_env =
     \<lparr>kbuf_keys = [], notified = [], bookmarks_open = True, termsize = (0, 0), set_ups = 0\<rparr>"

definition sample_tty :: terminal where
  "sample_tty =
     \<lparr>leave_ok = False, keypad_on = True, no_delay = False, cbreak = Half_delay 20,
      echo_on = False, cursor_vis = 0, can_curs_set = True, has_default_colors = True,
      colors_started = True,
      default_colors = True, mouse_mask = 1, mouse_interval = 0, ended = False,
      maxyx = (24, 80)\<rparr>"

text \<open>A session in the given load mode, with the given codes queued.\<close>

definition sample_ui :: "bool \<Rightarrow> int list \<Rightarrow> env_state ui" where
  "sample_ui mode queue =
     \<lparr>is_set_up = False, load_mode = mode, draw_title = True, mousemask = 1,
      tty = sample_tty, pending = queue, ext = sample_env\<rparr>"

section \<open>Properties\<close>

subsection \<open>Auxiliary facts\<close>

lemma confined_ret: "confined f P s (ret v s)"
  by (simp add: confined_def ret_def state_of_def calls_of_def)

lemma confined_call_ext: "ui_only f \<Longrightarrow> P ev \<Longrightarrow> confined f P s (call_ext ev cb s)"
  by (simp add: confined_def call_ext_def state_of_def calls_of_def ui_only_def split: prod.splits)

lemma confined_call_action:
  "f (snd (cb s)) = f s \<Longrightarrow> P ev \<Longrightarrow> confined f P s (call_action ev cb s)"
  by (cases "cb s") (simp add: confined_def call_action_def state_of_def calls_of_def)

lemma confined_bind:
  assumes "confined f P s (m s)" and "\<And>v s'. confined f P s' (k v s')"
  shows "confined f P s (bind_act m k s)"
proof -
  obtain r l s' where m: "m s = (r, l, s')" by (cases "m s") auto
  from assms(1) m have 1: "f s' = f s" "list_all P l"
    by (auto simp: confined_def state_of_def calls_of_def)
  show ?thesis
  proof (cases r)
    case (Inl e)
    with m 1 show ?thesis by (simp add: confined_def bind_act_def state_of_def calls_of_def)
  next
    case (Inr v)
    obtain r2 l2 s2 where k: "k v s' = (r2, l2, s2)" by (cases "k v s'") auto
    from assms(2)[of s' v] k have "f s2 = f s'" "list_all P l2"
      by (auto simp: confined_def state_of_def calls_of_def)
    with m 1 Inr k show ?thesis by (simp add: confined_def bind_act_def state_of_def calls_of_def)
  qed
qed

lemma confined_then:
  "confined f P s (m s) \<Longrightarrow> (\<And>s'. confined f P s' (k s')) \<Longrightarrow> confined f P s (then_act m k s)"
  by (simp add: then_act_def confined_bind)

lemma confined_try:
  assumes "confined f P s (m s)" and "\<And>e s'. confined f P s' (h e s')"
  shows "confined f P s (try_except m catches h s)"
proof -
  obtain r l s' where m: "m s = (r, l, s')" by (cases "m s") auto
  from assms(1) m have 1: "f s' = f s" "list_all P l"
    by (auto simp: confined_def state_of_def calls_of_def)
  show ?thesis
  proof (cases r)
    case (Inr v)
    with m 1 show ?thesis by (simp add: confined_def try_except_def state_of_def calls_of_def)
  next
    case (Inl e)
    obtain r2 l2 s2 where h: "h e s' = (r2, l2, s2)" by (cases "h e s'") auto
    from assms(2)[of s' e] h have "f s2 = f s'" "list_all P l2"
      by (auto simp: confined_def state_of_def calls_of_def)
    with m 1 Inl h show ?thesis by (simp add: confined_def try_except_def state_of_def calls_of_def)
  qed
qed

lemma confined_weaken:
  "confined f P s r \<Longrightarrow> (\<And>e. P e \<Longrightarrow> Q e) \<Longrightarrow> confined f Q s r"
  by (auto simp: confined_def list_all_iff)

lemma dispatch_is_collaborator: "dispatch_call e \<Longrightarrow> collaborator_call e"
  by (cases e) simp_all

lemma ui_only_const: "ui_only (\<lambda>s. ())"
  by (simp add: ui_only_def)

lemma stable_const: "stable (\<lambda>s. ()) c"
  by (simp add: stable_def)

lemma confined_run_command:
  assumes "ui_only f" and "\<And>g s'. cmd_function cmd = Some g \<Longrightarrow> f (snd (g s')) = f s'"
  shows "confined f dispatch_call s (run_command c cmd s)"
  unfolding run_command_def using assms
  by (auto split: option.splits
      intro!: confined_then confined_try confined_call_ext confined_call_action confined_ret)

lemma confined_dispatch:
  assumes "ui_only f" and "stable f c"
  shows "confined f dispatch_call s0
     ((let cmd = kbuf_command c (ext s0) in
           then_act (call_ext Hide_bookmarks (hide_bookmarks c)) (\<lambda>s.
             if kbuf_failure c (ext s) then call_ext Kbuf_clear (kbuf_clear c) s
             else
               (case cmd of
                  None \<Rightarrow> ret () s
                | Some cm \<Rightarrow>
                    then_act
                      (call_ext Set_env_cmd (\<lambda>x. (Inr (), set_env_cmd c cm x)))
                      (run_command c cm) s))) s0)"
proof (cases "kbuf_command c (ext s0)")
  case None
  with assms(1) show ?thesis
    by (auto intro!: confined_then confined_call_ext confined_ret)
next
  case (Some cm)
  from assms(2) Some have g: "\<And>g s'. cmd_function cm = Some g \<Longrightarrow> f (snd (g s')) = f s'"
    unfolding stable_def by blast
  have rc: "confined f dispatch_call s (run_command c cm s)" for s
    by (rule confined_run_command[where f = f and cmd = cm]) (use assms(1) g in auto)
  from rc Some assms(1) show ?thesis
    by (auto intro!: confined_then confined_call_ext confined_ret)
qed

lemma confined_handle_key:
  assumes "ui_only f" and "stable f c"
  shows "confined f collaborator_call s (handle_key c key s)"
proof -
  from assms(2) have press: "\<And>s'. f (snd (press c key s')) = f s'"
    unfolding stable_def by blast
  have tail: "\<And>s0. confined f collaborator_call s0
     ((let cmd = kbuf_command c (ext s0) in
           then_act (call_ext Hide_bookmarks (hide_bookmarks c)) (\<lambda>s.
             if kbuf_failure c (ext s) then call_ext Kbuf_clear (kbuf_clear c) s
             else
               (case cmd of
                  None \<Rightarrow> ret () s
                | Some cm \<Rightarrow>
                    then_act
                      (call_ext Set_env_cmd (\<lambda>x. (Inr (), set_env_cmd c cm x)))
                      (run_command c cm) s))) s0)"
    by (rule confined_weaken[OF confined_dispatch[OF assms] dispatch_is_collaborator])
  show ?thesis
    unfolding handle_key_def using assms(1) press tail
    by (auto split: option.splits
        intro!: confined_then confined_bind confined_call_ext confined_call_action confined_ret)
qed

lemma handle_key_calls: "list_all collaborator_call (calls_of (handle_key c key s))"
  using confined_handle_key[where f = "\<lambda>s. ()" and c = c and s = s and key = key]
  by (simp add: confined_def ui_only_const stable_const)

lemma delivered_append: "delivered (a @ b) = delivered a @ delivered b"
  by (induction a rule: delivered.induct) simp_all

lemma method_calls_append: "method_calls (a @ b) = method_calls a @ method_calls b"
  by (induction a rule: method_calls.induct) simp_all

lemma reads_append: "reads (a @ b) = reads a @ reads b"
  by (induction a rule: reads.induct) simp_all

lemma collaborator_calls:
  "list_all collaborator_call l \<Longrightarrow>
     delivered l = [] \<and> method_calls l = [] \<and> reads l = [] \<and> count_list l Setup = 0"
proof (induction l)
  case Nil
  show ?case by simp
next
  case (Cons e l)
  then show ?case by (cases e) simp_all
qed

lemma probe_eq:
  "probe n keys s = (Inr (keys @ filter (\<lambda>k. k \<noteq> - 1) (take n (pending s))),
     replicate n (Getch (input_wait (tty s))), s\<lparr>pending := drop n (pending s)\<rparr>)"
proof (induction n arbitrary: keys s)
  case 0
  show ?case by (simp add: ret_def)
next
  case (Suc n)
  show ?case
    by (cases "pending s") (simp_all add: Suc bind_act_def getch_def replicate_app_Cons_same)
qed

lemma replay_Cons:
  "replay c (key # keys) s =
     (case handle_key c key s of
        (Inl e, l, s') \<Rightarrow> (Inl e, Handle_key key # l, s')
      | (Inr v, l, s') \<Rightarrow>
          (outcome (replay c keys s'), Handle_key key # l @ calls_of (replay c keys s'),
           state_of (replay c keys s')))"
  by (simp add: then_act_def bind_act_def call_self_def outcome_def calls_of_def state_of_def
      split: prod.splits sum.splits)

lemma replay_stable:
  assumes "ui_only f" and "stable f c"
  shows "f (state_of (replay c keys s)) = f s"
proof (induction keys arbitrary: s)
  case Nil
  show ?case by (simp add: ret_def state_of_def)
next
  case (Cons key keys)
  obtain r l s' where hk: "handle_key c key s = (r, l, s')" by (cases "handle_key c key s") auto
  with confined_handle_key[OF assms, where s = s and key = key] have 1: "f s' = f s"
    by (simp add: confined_def state_of_def)
  show ?case
  proof (cases r)
    case (Inl e)
    with hk 1 show ?thesis by (simp add: replay_Cons state_of_def del: replay.simps)
  next
    case (Inr v)
    with hk 1 Cons[of s'] show ?thesis
      by (simp add: replay_Cons state_of_def del: replay.simps split: prod.splits)
  qed
qed

lemma replay_calls:
  "\<exists>n. delivered (calls_of (replay c keys s)) = take n keys \<and>
       method_calls (calls_of (replay c keys s)) = map Handle_key (take n keys) \<and>
       (keys \<noteq> [] \<longrightarrow> 0 < n) \<and>
       (outcome (replay c keys s) = Inr () \<longrightarrow> n = length keys) \<and>
       reads (calls_of (replay c keys s)) = []"
proof (induction keys arbitrary: s)
  case Nil
  show ?case by (simp add: ret_def calls_of_def outcome_def)
next
  case (Cons key keys)
  obtain r l s' where hk: "handle_key c key s = (r, l, s')" by (cases "handle_key c key s") auto
  with handle_key_calls[of c key s] have "list_all collaborator_call l"
    by (simp add: calls_of_def)
  then have l: "delivered l = []" "method_calls l = []" "reads l = []"
    using collaborator_calls by blast+
  show ?case
  proof (cases r)
    case (Inl e)
    with hk l have "delivered (calls_of (replay c (key # keys) s)) = take 1 (key # keys) \<and>
       method_calls (calls_of (replay c (key # keys) s)) = map Handle_key (take 1 (key # keys)) \<and>
       (outcome (replay c (key # keys) s) = Inr () \<longrightarrow> 1 = length (key # keys)) \<and>
       reads (calls_of (replay c (key # keys) s)) = []"
      by (simp add: replay_Cons calls_of_def outcome_def del: replay.simps)
    then show ?thesis by (intro exI[of _ 1]) simp
  next
    case (Inr v)
    from Cons[of s'] obtain n where n: "delivered (calls_of (replay c keys s')) = take n keys"
      "method_calls (calls_of (replay c keys s')) = map Handle_key (take n keys)"
      "outcome (replay c keys s') = Inr () \<longrightarrow> n = length keys"
      "reads (calls_of (replay c keys s')) = []"
      by blast
    with hk l Inr have "delivered (calls_of (replay c (key # keys) s)) = take (Suc n) (key # keys) \<and>
       method_calls (calls_of (replay c (key # keys) s)) = map Handle_key (take (Suc n) (key # keys)) \<and>
       (outcome (replay c (key # keys) s) = Inr () \<longrightarrow> Suc n = length (key # keys)) \<and>
       reads (calls_of (replay c (key # keys) s)) = []"
      by (simp add: replay_Cons calls_of_def outcome_def delivered_append method_calls_append
          reads_append del: replay.simps split: prod.splits)
    then show ?thesis by (intro exI[of _ "Suc n"]) simp
  qed
qed

lemma set_load_mode_eq:
  "outcome (set_load_mode b s) = Inr () \<and> load_mode (state_of (set_load_mode b s)) = b \<and>
   pending (state_of (set_load_mode b s)) = pending s \<and>
   delivered (calls_of (set_load_mode b s)) = [] \<and>
   method_calls (calls_of (set_load_mode b s)) = [] \<and>
   reads (calls_of (set_load_mode b s)) = [] \<and>
   input_wait (tty (state_of (set_load_mode True s))) =
     (if load_mode s then input_wait (tty s) else No_wait)"
  by (simp add: set_load_mode_def ret_def bind_act_def then_act_def assign_def curses_def
      outcome_def calls_of_def state_of_def input_wait_def)

lemma handle_input_lead:
  assumes "pending s = lead # rest" and "lead = 27 \<or> lead = 195"
    and "set_load_mode True (s\<lparr>pending := rest\<rparr>) = (r2, l2, s2)"
    and "replay c (lead # filter (\<lambda>k. k \<noteq> - 1) (take 8 rest)) (s2\<lparr>pending := drop 8 rest\<rparr>)
           = (r4, l4, s4)"
  shows "handle_input c s =
     (case r4 of
        Inl e \<Rightarrow> (Inl e, Getch (input_wait (tty s)) # Set_load_mode True # l2 @
            replicate 8 (Getch (input_wait (tty s2))) @ l4, s4)
      | Inr v \<Rightarrow>
          (Inr (), Getch (input_wait (tty s)) # Set_load_mode True # l2 @
             replicate 8 (Getch (input_wait (tty s2))) @ l4 @
             Set_load_mode (load_mode s) # calls_of (set_load_mode (load_mode s) s4),
           state_of (set_load_mode (load_mode s) s4)))"
proof -
  from set_load_mode_eq[of True "s\<lparr>pending := rest\<rparr>"] assms(3)
  have r2: "r2 = Inr ()" and p2: "pending s2 = rest"
    by (simp_all add: outcome_def state_of_def)
  obtain r5 l5 s5 where s5: "set_load_mode (load_mode s) s4 = (r5, l5, s5)"
    by (cases "set_load_mode (load_mode s) s4") auto
  with set_load_mode_eq[of "load_mode s" s4] have r5: "r5 = Inr ()"
    by (simp add: outcome_def)
  show ?thesis
    using assms r2 p2 s5 r5
    by (auto simp add: handle_input_def Let_def bind_act_def then_act_def getch_def call_self_def
        probe_eq calls_of_def state_of_def split: sum.splits)
qed

lemma sample_simps:
  "hint (sample a b f d) = None"
  "key_append (sample a b f d) = (\<lambda>key x. (Inr (), x\<lparr>kbuf_keys := kbuf_keys x @ [key]\<rparr>))"
  "press (sample a b f d) = (\<lambda>key s. (Inr a, s))"
  "hide_bookmarks (sample a b f d) = (\<lambda>x. (Inr (), x\<lparr>bookmarks_open := False\<rparr>))"
  "notify (sample a b f d) = (\<lambda>e x. (Inr (), x\<lparr>notified := notified x @ [e]\<rparr>))"
  "kbuf_command (sample a b f d) = (\<lambda>x. b)"
  "kbuf_failure (sample a b f d) = (\<lambda>x. f)"
  "kbuf_done (sample a b f d) = (\<lambda>x. d)"
  "kbuf_clear (sample a b f d) = (\<lambda>x. (Inr (), x\<lparr>kbuf_keys := []\<rparr>))"
  "set_env_cmd (sample a b f d) = (\<lambda>cm x. x)"
  "setup_hook (sample a b f d) = (\<lambda>x. (Inr (), x\<lparr>set_ups := Suc (set_ups x)\<rparr>))"
  "set_termsize (sample a b f d) = (\<lambda>yx x. x\<lparr>termsize := yx\<rparr>)"
  "draw_widgets (sample a b f d) = (\<lambda>x. (Inr (), x))"
  "get_settings (sample a b f d) = (\<lambda>x. sample_settings)"
  "cwd_path (sample a b f d) = (\<lambda>x. ''/home/alice/a/b/c/d'')"
  "home_path (sample a b f d) = (\<lambda>x. ''/home/alice'')"
  by (simp_all add: sample_def)

lemma sample_handle_key_plain:
  "handle_key (sample False None False False) key s =
     (Inr (), [Key_append key, Press key, Hide_bookmarks],
      s\<lparr>ext := (ext s)\<lparr>kbuf_keys := kbuf_keys (ext s) @ [key], bookmarks_open := False\<rparr>\<rparr>)"
  by (simp add: handle_key_def sample_simps Let_def ret_def bind_act_def then_act_def call_ext_def
      call_action_def)

lemma sample_stable: "stable f (sample consumes None failure done)"
  by (simp add: stable_def sample_simps)

lemma ui_only_fields: "ui_only pending" "ui_only load_mode" "ui_only ui_part"
  by (simp_all add: ui_only_def ui_part_def)

lemma sample_replay_plain:
  "outcome (replay (sample False None False False) keys s) = Inr ()"
proof (induction keys arbitrary: s)
  case Nil
  show ?case by (simp add: ret_def outcome_def)
next
  case (Cons key keys)
  show ?case
    using Cons[of "s\<lparr>ext := (ext s)\<lparr>kbuf_keys := kbuf_keys (ext s) @ [key],
      bookmarks_open := False\<rparr>\<rparr>"]
    by (simp add: replay_Cons sample_handle_key_plain outcome_def del: replay.simps)
qed

lemma replicate_Getch:
  "delivered (replicate n (Getch w)) = [] \<and> method_calls (replicate n (Getch w)) = [] \<and>
   reads (replicate n (Getch w)) = replicate n w"
  by (induction n) simp_all

lemma sample_handle_input_returns:
  assumes "pending s = lead # rest" and "lead = 27 \<or> lead = 195"
  shows "outcome (handle_input (sample False None False False) s) = Inr ()"
proof -
  let ?c = "sample False None False False"
  let ?keys = "lead # filter (\<lambda>k. k \<noteq> - 1) (take 8 rest)"
  obtain r2 l2 s2 where force: "set_load_mode True (s\<lparr>pending := rest\<rparr>) = (r2, l2, s2)"
    by (cases "set_load_mode True (s\<lparr>pending := rest\<rparr>)") auto
  obtain r4 l4 s4 where rep: "replay ?c ?keys (s2\<lparr>pending := drop 8 rest\<rparr>) = (r4, l4, s4)"
    by (cases "replay ?c ?keys (s2\<lparr>pending := drop 8 rest\<rparr>)") auto
  from sample_replay_plain[of ?keys "s2\<lparr>pending := drop 8 rest\<rparr>"] rep
  have "r4 = Inr ()" by (simp add: outcome_def)
  then show ?thesis
    by (simp add: handle_input_lead[OF assms force rep] outcome_def)
qed

lemma getch_eq:
  "getch s = (Inr (case pending s of [] \<Rightarrow> - 1 | k # ks \<Rightarrow> k), [Getch (input_wait (tty s))],
     s\<lparr>pending := tl (pending s)\<rparr>)"
  by (cases "pending s") (simp_all add: getch_def)

lemma handle_input_other:
  assumes "(case pending s of [] \<Rightarrow> - 1 | k # ks \<Rightarrow> k) = key" and "\<not> (key = 27 \<or> key = 195)"
    and "ui_only f" and "stable f c" and "\<And>s' q. f (s'\<lparr>pending := q\<rparr>) = f s'"
  shows "f (state_of (handle_input c s)) = f s"
proof -
  let ?s1 = "s\<lparr>pending := tl (pending s)\<rparr>"
  let ?s2 = "if flushinput (get_settings c (ext ?s1)) then ?s1\<lparr>pending := []\<rparr> else ?s1"
  have flush: "(if flushinput (get_settings c (ext ?s1)) then flushinp ?s1 else ret () ?s1) =
      (Inr (), if flushinput (get_settings c (ext ?s1)) then [Flushinp] else [], ?s2)"
    by (simp add: flushinp_def ret_def)
  from confined_handle_key[OF assms(3,4), where s = ?s2 and key = key]
  have hk: "f (state_of (handle_key c key ?s2)) = f ?s2"
    by (simp add: confined_def)
  have s2: "f ?s2 = f s"
    by (cases "flushinput (get_settings c (ext ?s1))") (simp_all add: assms(5))
  have "handle_input c s =
      (case (if 0 < key then call_self (Handle_key key) (handle_key c key) else ret ()) ?s2 of
        (r, l, s') \<Rightarrow>
          (r, Getch (input_wait (tty s)) #
            (if flushinput (get_settings c (ext ?s1)) then [Flushinp] else []) @ l, s'))"
    using assms(1,2) flush
    by (auto simp add: handle_input_def bind_act_def then_act_def getch_eq split: prod.splits)
  then have "f (state_of (handle_input c s)) = f ?s2"
    using hk
    by (auto simp: state_of_def call_self_def ret_def split: prod.splits if_splits)
  with s2 show ?thesis
    by simp
qed

lemma suspend_eq:
  "suspend s =
     (if ended (tty s) then Inl CursesError else Inr (),
      [Keypad False, Nocbreak, Echo, Curs_set 1, Mousemask 0, Endwin],
      s\<lparr>tty := (tty s)\<lparr>keypad_on := False, cbreak := Cooked, echo_on := True,
        cursor_vis := (if can_curs_set (tty s) then 1 else cursor_vis (tty s)),
        mouse_mask := 0, ended := True\<rparr>\<rparr>)"
  by (cases "ended (tty s)"; cases "can_curs_set (tty s)")
     (simp_all add: suspend_def ret_def bind_act_def then_act_def try_except_def curses_def)

lemma initialize_facts:
  "load_mode (state_of (initialize c s)) = False \<and>
   cbreak (tty (state_of (initialize c s))) = Half_delay 20 \<and>
   is_set_up (state_of (initialize c s)) = (is_set_up s \<or> has_default_colors (tty s)) \<and>
   has_default_colors (tty (state_of (initialize c s))) = has_default_colors (tty s) \<and>
   count_list (calls_of (initialize c s)) Setup =
     (if \<not> is_set_up s \<and> has_default_colors (tty s) then 1 else 0)"
proof -
  obtain r x' where h: "setup_hook c (ext s) = (r, x')"
    by (cases "setup_hook c (ext s)") auto
  show ?thesis
    using h
    by (cases r; cases "can_curs_set (tty s)"; cases "is_set_up s";
        cases "has_default_colors (tty s)")
       (simp_all add: initialize_def ret_def bind_act_def then_act_def try_except_def curses_def
      assign_def call_ext_def call_self_def ungetmouse_def update_size_def getmaxyx_def
      state_of_def calls_of_def)
qed

lemma run_lifecycle_Cons:
  "calls_of (run_lifecycle c (step # steps) s) =
     calls_of ((case step of Do_initialize \<Rightarrow> initialize c | Do_suspend \<Rightarrow> suspend) s) @
     calls_of (run_lifecycle c steps
       (state_of ((case step of Do_initialize \<Rightarrow> initialize c | Do_suspend \<Rightarrow> suspend) s)))"
  by (simp add: then_act_def bind_act_def try_except_def ret_def calls_of_def state_of_def
      split: prod.splits sum.splits)

lemma run_lifecycle_setups:
  "count_list (calls_of (run_lifecycle c steps s)) Setup =
     (if \<not> is_set_up s \<and> has_default_colors (tty s) \<and> Do_initialize \<in> set steps
      then 1 else 0)"
proof (induction steps arbitrary: s)
  case Nil
  show ?case by (simp add: ret_def calls_of_def)
next
  case (Cons step steps)
  show ?case
  proof (cases step)
    case Do_suspend
    have "is_set_up (state_of (suspend s)) = is_set_up s"
      "has_default_colors (tty (state_of (suspend s))) = has_default_colors (tty s)"
      "count_list (calls_of (suspend s)) Setup = 0"
      by (simp_all add: suspend_eq state_of_def calls_of_def)
    with Do_suspend Cons[of "state_of (suspend s)"] show ?thesis
      by (simp add: run_lifecycle_Cons del: run_lifecycle.simps)
  next
    case Do_initialize
    with initialize_facts[of c s] Cons[of "state_of (initialize c s)"] show ?thesis
      by (simp add: run_lifecycle_Cons del: run_lifecycle.simps)
  qed
qed



lemma title_path_example: "title_path ''/home/alice/a/b/c/d'' ''/home/alice'' 2 = ''c/d''"
  by (simp add: title_path_def startswith_def rsplit_def os_sep_def numeral_2_eq_2)

lemma handle_key_press:
  assumes "(case hint c of Some h \<Rightarrow> call_ext Hint h | None \<Rightarrow> ret ()) s = (Inr (), lh, s0)"
    and "key_append c key (ext s0) = (Inr (), x1)"
    and "press c key (s0\<lparr>ext := x1\<rparr>) = (Inr consumed, s2)"
  shows "handle_key c key s =
     (if consumed then (Inr (), lh @ [Key_append key, Press key], s2)
      else
        (case (let cmd = kbuf_command c (ext s2) in
           then_act (call_ext Hide_bookmarks (hide_bookmarks c)) (\<lambda>s.
             if kbuf_failure c (ext s) then call_ext Kbuf_clear (kbuf_clear c) s
             else
               (case cmd of
                  None \<Rightarrow> ret () s
                | Some cm \<Rightarrow>
                    then_act
                      (call_ext Set_env_cmd (\<lambda>x. (Inr (), set_env_cmd c cm x)))
                      (run_command c cm) s))) s2 of
           (r, l, s') \<Rightarrow> (r, lh @ Key_append key # Press key # l, s')))"
  using assms
  by (simp add: handle_key_def bind_act_def then_act_def call_ext_def call_action_def ret_def
      split: prod.splits)

lemma handle_key_command:
  assumes "(case hint c of Some h \<Rightarrow> call_ext Hint h | None \<Rightarrow> ret ()) s = (Inr (), lh, s0)"
    and "key_append c key (ext s0) = (Inr (), x1)"
    and "press c key (s0\<lparr>ext := x1\<rparr>) = (Inr False, s2)"
    and "hide_bookmarks c (ext s2) = (Inr (), x3)"
    and "\<not> kbuf_failure c x3"
    and "kbuf_command c (ext s2) = Some cmd"
  shows "handle_key c key s =
     (outcome (run_command c cmd (s2\<lparr>ext := set_env_cmd c cmd x3\<rparr>)),
      lh @ [Key_append key, Press key, Hide_bookmarks, Set_env_cmd] @
        calls_of (run_command c cmd (s2\<lparr>ext := set_env_cmd c cmd x3\<rparr>)),
      state_of (run_command c cmd (s2\<lparr>ext := set_env_cmd c cmd x3\<rparr>)))"
  using assms(4-6)
  by (simp add: handle_key_press[OF assms(1-3)] Let_def bind_act_def then_act_def call_ext_def
      outcome_def calls_of_def state_of_def split: prod.splits)

lemma polling_initialize: "polling (state_of (initialize c s))"
  by (simp add: polling_def initialize_facts)

lemma polling_suspend: "polling s \<Longrightarrow> polling (state_of (suspend s))"
  by (auto simp: polling_def suspend_eq state_of_def input_wait_def
      split: cbreak_mode.splits if_splits)

lemma polling_set_load_mode: "polling s \<Longrightarrow> polling (state_of (set_load_mode b s))"
  by (auto simp add: polling_def set_load_mode_def ret_def bind_act_def then_act_def assign_def
      curses_def state_of_def input_wait_def split: cbreak_mode.splits if_splits)

lemma ui_only_polling: "ui_only polling"
  by (simp add: ui_only_def polling_def)

lemma polling_handle_key:
  assumes "polling s" and "stable polling c"
  shows "polling (state_of (handle_key c key s))"
  using confined_handle_key[OF ui_only_polling assms(2), where s = s and key = key] assms(1)
  by (simp add: confined_def)

lemma polling_handle_input:
  assumes "polling s" and "stable polling c"
  shows "polling (state_of (handle_input c s))"
proof (cases "lead_first s")
  case True
  then obtain lead rest where p: "pending s = lead # rest" "lead = 27 \<or> lead = 195"
    by (auto simp: lead_first_def split: list.splits)
  let ?keys = "lead # filter (\<lambda>k. k \<noteq> - 1) (take 8 rest)"
  obtain r2 l2 s2 where force: "set_load_mode True (s\<lparr>pending := rest\<rparr>) = (r2, l2, s2)"
    by (cases "set_load_mode True (s\<lparr>pending := rest\<rparr>)") auto
  obtain r4 l4 s4 where rep: "replay c ?keys (s2\<lparr>pending := drop 8 rest\<rparr>) = (r4, l4, s4)"
    by (cases "replay c ?keys (s2\<lparr>pending := drop 8 rest\<rparr>)") auto
  note eq = handle_input_lead[OF p force rep]
  from assms(1) have "polling (s\<lparr>pending := rest\<rparr>)"
    by (simp add: polling_def)
  from polling_set_load_mode[OF this, of True] force have "polling s2"
    by (simp add: state_of_def)
  then have s3: "polling (s2\<lparr>pending := drop 8 rest\<rparr>)"
    by (simp add: polling_def)
  from replay_stable[OF ui_only_polling assms(2), of ?keys "s2\<lparr>pending := drop 8 rest\<rparr>"] rep s3
  have s4: "polling s4"
    by (simp add: state_of_def)
  show ?thesis
    using s4 polling_set_load_mode[OF s4, of "load_mode s"]
    by (cases r4) (simp_all add: eq state_of_def)
next
  case False
  then have "\<not> ((case pending s of [] \<Rightarrow> - 1 | k # ks \<Rightarrow> k) = 27 \<or>
      (case pending s of [] \<Rightarrow> - 1 | k # ks \<Rightarrow> k) = 195)"
    by (cases "pending s") (auto simp: lead_first_def)
  from handle_input_other[OF refl this ui_only_polling assms(2)] assms(1) show ?thesis
    by (simp add: polling_def)
qed

subsection \<open>The lookahead after a lead code\<close>

text \<open>
  C1.  When the first code read is 27 or 195, \<open>handle_input\<close> makes eight more reads and
  hands to \<open>handle_key\<close> the lead code followed by the codes those reads returned, in
  order, without the reads that returned -1.  A call to \<open>handle_key\<close> that raises ends
  the delivery there, so the keys delivered are always a non-empty prefix of that list,
  and the whole list when \<open>handle_input\<close> returns.  There are never more than nine of
  them, from nine reads in all, and the codes beyond the eighth stay queued (until an
  action touches the queue).  The eight
  further reads do not wait: \<open>set_load_mode(True)\<close> has switched the terminal to
  \<open>nodelay\<close>, or load mode was on already, and then reads do not wait in any state that
  the methods of \<open>UI\<close> lead to (\<open>polling\<close>).
\<close>

theorem handle_input_lead_delivers:
  assumes "pending s = lead # rest" and "lead = 27 \<or> lead = 195"
  shows "prefix (delivered (calls_of (handle_input c s)))
           (lead # filter (\<lambda>k. k \<noteq> - 1) (take 8 rest)) \<and>
         delivered (calls_of (handle_input c s)) \<noteq> [] \<and>
         (outcome (handle_input c s) = Inr () \<longrightarrow>
            delivered (calls_of (handle_input c s)) =
              lead # filter (\<lambda>k. k \<noteq> - 1) (take 8 rest)) \<and>
         length (delivered (calls_of (handle_input c s))) \<le> 9 \<and>
         reads (calls_of (handle_input c s)) =
           input_wait (tty s) # replicate 8 (if load_mode s then input_wait (tty s) else No_wait) \<and>
         (polling s \<longrightarrow>
            reads (calls_of (handle_input c s)) = input_wait (tty s) # replicate 8 No_wait) \<and>
         (stable pending c \<longrightarrow> pending (state_of (handle_input c s)) = drop 8 rest)"
proof -
  let ?keys = "lead # filter (\<lambda>k. k \<noteq> - 1) (take 8 rest)"
  obtain r2 l2 s2 where force: "set_load_mode True (s\<lparr>pending := rest\<rparr>) = (r2, l2, s2)"
    by (cases "set_load_mode True (s\<lparr>pending := rest\<rparr>)") auto
  obtain r4 l4 s4 where rep: "replay c ?keys (s2\<lparr>pending := drop 8 rest\<rparr>) = (r4, l4, s4)"
    by (cases "replay c ?keys (s2\<lparr>pending := drop 8 rest\<rparr>)") auto
  note eq = handle_input_lead[OF assms force rep]
  from set_load_mode_eq[of True "s\<lparr>pending := rest\<rparr>"] force
  have l2: "delivered l2 = []" "reads l2 = []"
    "input_wait (tty s2) = (if load_mode s then input_wait (tty s) else No_wait)"
    by (simp_all add: calls_of_def state_of_def)
  from replay_calls[of c ?keys "s2\<lparr>pending := drop 8 rest\<rparr>"] rep
  obtain n where n: "delivered l4 = take n ?keys" "0 < n" "r4 = Inr () \<longrightarrow> n = length ?keys"
    "reads l4 = []"
    by (auto simp: calls_of_def outcome_def)
  have p4: "pending s4 = drop 8 rest" if "stable pending c"
    using replay_stable[OF ui_only_fields(1) that, of ?keys "s2\<lparr>pending := drop 8 rest\<rparr>"] rep
    by (simp add: state_of_def)
  note restore = set_load_mode_eq[of "load_mode s" s4]
  have rest8: "delivered (replicate 8 (Getch w)) = []" for w
    by (simp add: replicate_Getch)
  have "length (filter (\<lambda>k. k \<noteq> - 1) (take 8 rest)) \<le> length (take 8 rest)"
    by (rule length_filter_le)
  then have "length (filter (\<lambda>k. k \<noteq> - 1) (take 8 rest)) \<le> 8"
    by simp
  then have "length ?keys \<le> 9"
    by simp
  moreover have "length (take n ?keys) \<le> length ?keys"
    by (simp only: length_take min.cobounded1)
  ultimately have len: "length (take n ?keys) \<le> 9"
    by (rule order_trans[rotated])
  have got: "delivered (calls_of (handle_input c s)) = take n ?keys"
    using l2 n(1) restore rest8
    by (cases r4) (simp_all add: eq calls_of_def delivered_append)
  have cnt: "reads (calls_of (handle_input c s)) =
      input_wait (tty s) # replicate 8 (if load_mode s then input_wait (tty s) else No_wait)"
    using l2 n(4) restore
    by (cases r4) (simp_all add: eq calls_of_def reads_append replicate_Getch)
  have pend: "pending (state_of (handle_input c s)) = drop 8 rest" if "stable pending c"
    using p4[OF that] restore by (cases r4) (simp_all add: eq state_of_def)
  have out: "outcome (handle_input c s) = Inr () \<Longrightarrow> r4 = Inr ()"
    by (cases r4) (simp_all add: eq outcome_def)
  have nonempty: "take n ?keys \<noteq> []"
    using n(2) by simp
  have poll: "polling s \<Longrightarrow>
      reads (calls_of (handle_input c s)) = input_wait (tty s) # replicate 8 No_wait"
    unfolding cnt by (simp add: polling_def)
  show ?thesis
    unfolding got using len cnt pend out n(3) nonempty poll
    by (auto simp: take_is_prefix simp del: take_Cons')
qed

theorem handle_input_lead_delivers_witness:
  "delivered (calls_of (handle_input (sample False None False False) (sample_ui False [27])))
     = [27] \<and>
   delivered (calls_of (handle_input (sample False None False False)
     (sample_ui False [27, 101, 102, 103, 104, 105, 106, 107, 108, 109, 110,
        111, 112, 113, 114, 115, 116, 117, 118, 119, 120])))
     = [27, 101, 102, 103, 104, 105, 106, 107, 108] \<and>
   delivered (calls_of (handle_input (sample False None False False)
     (sample_ui True [195, 169, - 1, 120])))
     = [195, 169, 120] \<and>
   reads (calls_of (handle_input (sample False None False False) (sample_ui False [27])))
     = [Tenths 20, No_wait, No_wait, No_wait, No_wait, No_wait, No_wait, No_wait, No_wait] \<and>
   pending (state_of (handle_input (sample False None False False)
     (sample_ui False [27, 101, 102, 103, 104, 105, 106, 107, 108, 109, 110,
        111, 112, 113, 114, 115, 116, 117, 118, 119, 120])))
     = [109, 110, 111, 112, 113, 114, 115, 116, 117, 118, 119, 120]"
  using
    handle_input_lead_delivers[of "sample_ui False [27]" 27 "[]" "sample False None False False"]
    handle_input_lead_delivers[of "sample_ui False [27, 101, 102, 103, 104, 105, 106, 107,
        108, 109, 110, 111, 112, 113, 114, 115, 116, 117, 118, 119, 120]" 27
        "[101, 102, 103, 104, 105, 106, 107, 108, 109, 110,
          111, 112, 113, 114, 115, 116, 117, 118, 119, 120]" "sample False None False False"]
    handle_input_lead_delivers[of "sample_ui True [195, 169, - 1, 120]" 195
        "[169, - 1, 120]" "sample False None False False"]
    sample_handle_input_returns[of "sample_ui False [27]" 27 "[]"]
    sample_handle_input_returns[of "sample_ui False [27, 101, 102, 103, 104, 105, 106, 107,
        108, 109, 110, 111, 112, 113, 114, 115, 116, 117, 118, 119, 120]" 27
        "[101, 102, 103, 104, 105, 106, 107, 108, 109, 110,
          111, 112, 113, 114, 115, 116, 117, 118, 119, 120]"]
    sample_handle_input_returns[of "sample_ui True [195, 169, - 1, 120]" 195
        "[169, - 1, 120]"]
    sample_stable[of pending False False False]
  by (simp add: sample_ui_def sample_tty_def polling_def input_wait_def numeral_eq_Suc)

subsection \<open>Replay and restoration\<close>




subsection \<open>The key buffer and \<open>press\<close>\<close>

text \<open>
  C3, as the code has it.  \<open>handle_key\<close> passes the key to \<open>env.key_append\<close> before it
  offers it to \<open>press\<close>, whatever \<open>press\<close> answers.  When \<open>press\<close> consumes the key,
  \<open>handle_key\<close> returns at once, with no further call.  No call after \<open>press\<close> appends
  to the key buffer: only \<open>hide_bookmarks\<close>, the assignment to \<open>env.cmd\<close>, the command's
  function, \<open>notify\<close> and \<open>kbuf.clear\<close> can follow.
\<close>

theorem handle_key_appends_before_press:
  assumes "(case hint c of Some h \<Rightarrow> call_ext Hint h | None \<Rightarrow> ret ()) s = (Inr (), lh, s0)"
    and "key_append c key (ext s0) = (Inr (), x1)"
    and "press c key (s0\<lparr>ext := x1\<rparr>) = (Inr consumed, s2)"
  shows "take (length lh + 2) (calls_of (handle_key c key s)) = lh @ [Key_append key, Press key] \<and>
         list_all dispatch_call (drop (length lh + 2) (calls_of (handle_key c key s))) \<and>
         (consumed \<longrightarrow> handle_key c key s = (Inr (), lh @ [Key_append key, Press key], s2))"
proof (cases consumed)
  case True
  then show ?thesis
    by (simp add: handle_key_press[OF assms] calls_of_def)
next
  case False
  have "confined (\<lambda>s. ()) dispatch_call s2
     ((let cmd = kbuf_command c (ext s2) in
           then_act (call_ext Hide_bookmarks (hide_bookmarks c)) (\<lambda>s.
             if kbuf_failure c (ext s) then call_ext Kbuf_clear (kbuf_clear c) s
             else
               (case cmd of
                  None \<Rightarrow> ret () s
                | Some cm \<Rightarrow>
                    then_act
                      (call_ext Set_env_cmd (\<lambda>x. (Inr (), set_env_cmd c cm x)))
                      (run_command c cm) s))) s2)"
    by (rule confined_dispatch[OF ui_only_const stable_const])
  with False show ?thesis
    by (auto simp add: handle_key_press[OF assms] confined_def calls_of_def split: prod.splits)
qed

theorem handle_key_appends_before_press_witness:
  "handle_key (sample True None False False) 120 (sample_ui False []) =
     (Inr (), [Key_append 120, Press 120],
      (sample_ui False [])\<lparr>ext := sample_env\<lparr>kbuf_keys := [120]\<rparr>\<rparr>)"
  using handle_key_appends_before_press[of "sample True None False False" "sample_ui False []"
      "[]" "sample_ui False []" 120 "sample_env\<lparr>kbuf_keys := [120]\<rparr>" True
      "(sample_ui False [])\<lparr>ext := sample_env\<lparr>kbuf_keys := [120]\<rparr>\<rparr>"]
  by (simp add: sample_simps ret_def sample_ui_def sample_env_def)

theorem append_only_when_unconsumed_counterexample:
  "calls_of (handle_key (sample True None False False) 120 (sample_ui False [])) =
     [Key_append 120, Press 120] \<and>
   kbuf_keys (ext (state_of (handle_key (sample True None False False) 120 (sample_ui False []))))
     = [120] \<and>
   calls_of (handle_key (sample False None False False) 120 (sample_ui False [])) =
     [Key_append 120, Press 120, Hide_bookmarks]"
  by (simp add: handle_key_def sample_simps sample_ui_def sample_env_def Let_def ret_def
      bind_act_def then_act_def call_ext_def call_action_def calls_of_def state_of_def)

subsection \<open>The setup hook\<close>

text \<open>
  C4, as the code has it.  In a session that starts with the latch \<open>is_set_up\<close> off and
  calls \<open>initialize\<close> at least once, with any number of further calls to \<open>initialize\<close> and
  \<open>suspend\<close> in any order, \<open>setup\<close> is called exactly once on a terminal with default
  colours, also when \<open>setup\<close> itself raises and \<open>initialize\<close> is called again.  On a
  terminal without default colours \<open>initialize\<close> raises at \<open>use_default_colors\<close> (line 67),
  before it reaches the latch, and \<open>setup\<close> is never called.
\<close>

theorem setup_fires_once:
  assumes "\<not> is_set_up s" and "0 < count_list steps Do_initialize"
  shows "count_list (calls_of (run_lifecycle c steps s)) Setup =
           (if has_default_colors (tty s) then 1 else 0)"
proof -
  from assms(2) have "Do_initialize \<in> set steps"
    by (metis count_notin less_numeral_extra(3))
  with assms(1) show ?thesis
    by (simp add: run_lifecycle_setups)
qed

theorem setup_fires_once_witness:
  "count_list (calls_of (run_lifecycle (sample False None False False)
       [Do_initialize, Do_initialize, Do_initialize] (sample_ui False []))) Setup = 1 \<and>
   count_list (calls_of (run_lifecycle (sample False None False False)
       [Do_suspend, Do_initialize, Do_suspend, Do_initialize] (sample_ui False []))) Setup = 1 \<and>
   count_list (calls_of (run_lifecycle
       ((sample False None False False)\<lparr>setup_hook := \<lambda>x. (Inl (Exception ''setup''), x)\<rparr>)
       [Do_initialize, Do_initialize] (sample_ui False []))) Setup = 1"
  using setup_fires_once[of "sample_ui False []" "[Do_initialize, Do_initialize, Do_initialize]"
      "sample False None False False"]
    setup_fires_once[of "sample_ui False []" "[Do_suspend, Do_initialize, Do_suspend, Do_initialize]"
      "sample False None False False"]
    setup_fires_once[of "sample_ui False []" "[Do_initialize, Do_initialize]"
      "(sample False None False False)\<lparr>setup_hook := \<lambda>x. (Inl (Exception ''setup''), x)\<rparr>"]
  by (simp add: sample_ui_def sample_tty_def)

theorem setup_never_fires_counterexample:
  "count_list (calls_of (run_lifecycle (sample False None False False)
       [Do_initialize, Do_initialize, Do_initialize]
       ((sample_ui False [])\<lparr>tty := sample_tty\<lparr>has_default_colors := False\<rparr>\<rparr>))) Setup = 0"
  by (simp add: run_lifecycle_setups del: run_lifecycle.simps)

subsection \<open>The load mode across \<open>handle_input\<close>\<close>




subsection \<open>A command that raises\<close>

text \<open>
  C6, as the code has it.  When the function of the resolved command raises an instance of
  \<open>Exception\<close>, \<open>handle_key\<close> catches it and passes it to \<open>fm.notify\<close>, once; if
  \<open>notify\<close> (and \<open>kbuf.clear\<close>, where it is called) returns, \<open>handle_key\<close> returns, and
  it has cleared the key buffer exactly when the buffer's \<open>done\<close> flag, read after the
  notification, is set.
\<close>

theorem command_exception_isolated:
  assumes "(case hint c of Some h \<Rightarrow> call_ext Hint h | None \<Rightarrow> ret ()) s = (Inr (), lh, s0)"
    and "key_append c key (ext s0) = (Inr (), x1)"
    and "press c key (s0\<lparr>ext := x1\<rparr>) = (Inr False, s2)"
    and "hide_bookmarks c (ext s2) = (Inr (), x3)"
    and "\<not> kbuf_failure c x3"
    and "kbuf_command c (ext s2) = Some cmd"
    and "cmd_function cmd = Some f"
    and "f (s2\<lparr>ext := set_env_cmd c cmd x3\<rparr>) = (Inl e, s4)"
    and "is_Exception e"
    and "notify c e (ext s4) = (Inr (), x5)"
    and "kbuf_clear c x5 = (Inr (), x6)"
  shows "handle_key c key s =
     (Inr (),
      lh @ [Key_append key, Press key, Hide_bookmarks, Set_env_cmd, Run_function, Notify e] @
        (if kbuf_done c x5 then [Kbuf_clear] else []),
      s4\<lparr>ext := (if kbuf_done c x5 then x6 else x5)\<rparr>)"
  using assms(7-11)
  by (simp add: handle_key_command[OF assms(1-6)] run_command_def bind_act_def then_act_def
      try_except_def call_ext_def call_action_def ret_def outcome_def calls_of_def state_of_def)

theorem command_exception_isolated_witness:
  "handle_key (sample False (Some (raising (Exception ''boom''))) False True) 113
       (sample_ui False []) =
     (Inr (),
      [Key_append 113, Press 113, Hide_bookmarks, Set_env_cmd, Run_function,
       Notify (Exception ''boom''), Kbuf_clear],
      (sample_ui False [])\<lparr>ext := sample_env\<lparr>kbuf_keys := [], bookmarks_open := False,
         notified := [Exception ''boom'']\<rparr>\<rparr>) \<and>
   handle_key (sample False (Some (raising (Exception ''boom''))) False False) 113
       (sample_ui False []) =
     (Inr (),
      [Key_append 113, Press 113, Hide_bookmarks, Set_env_cmd, Run_function,
       Notify (Exception ''boom'')],
      (sample_ui False [])\<lparr>ext := sample_env\<lparr>kbuf_keys := [113], bookmarks_open := False,
         notified := [Exception ''boom'']\<rparr>\<rparr>)"
  using command_exception_isolated[of "sample False (Some (raising (Exception ''boom''))) False True"
      "sample_ui False []" "[]" "sample_ui False []" 113
      "sample_env\<lparr>kbuf_keys := [113]\<rparr>"
      "(sample_ui False [])\<lparr>ext := sample_env\<lparr>kbuf_keys := [113]\<rparr>\<rparr>"
      "sample_env\<lparr>kbuf_keys := [113], bookmarks_open := False\<rparr>"
      "raising (Exception ''boom'')" "\<lambda>s. (Inl (Exception ''boom''), s)" "Exception ''boom''"
      "(sample_ui False [])\<lparr>ext := sample_env\<lparr>kbuf_keys := [113], bookmarks_open := False\<rparr>\<rparr>"
      "sample_env\<lparr>kbuf_keys := [113], bookmarks_open := False,
         notified := [Exception ''boom'']\<rparr>"
      "sample_env\<lparr>kbuf_keys := [], bookmarks_open := False,
         notified := [Exception ''boom'']\<rparr>"]
    command_exception_isolated[of "sample False (Some (raising (Exception ''boom''))) False False"
      "sample_ui False []" "[]" "sample_ui False []" 113
      "sample_env\<lparr>kbuf_keys := [113]\<rparr>"
      "(sample_ui False [])\<lparr>ext := sample_env\<lparr>kbuf_keys := [113]\<rparr>\<rparr>"
      "sample_env\<lparr>kbuf_keys := [113], bookmarks_open := False\<rparr>"
      "raising (Exception ''boom'')" "\<lambda>s. (Inl (Exception ''boom''), s)" "Exception ''boom''"
      "(sample_ui False [])\<lparr>ext := sample_env\<lparr>kbuf_keys := [113], bookmarks_open := False\<rparr>\<rparr>"
      "sample_env\<lparr>kbuf_keys := [113], bookmarks_open := False,
         notified := [Exception ''boom'']\<rparr>"
      "sample_env\<lparr>kbuf_keys := [], bookmarks_open := False,
         notified := [Exception ''boom'']\<rparr>"]
  by (simp add: sample_simps ret_def sample_ui_def sample_env_def raising_def)

theorem system_exit_counterexample:
  "outcome (handle_key (sample False (Some (raising SystemExit)) False True) 113
       (sample_ui False [])) = Inl SystemExit \<and>
   calls_of (handle_key (sample False (Some (raising SystemExit)) False True) 113
       (sample_ui False [])) =
     [Key_append 113, Press 113, Hide_bookmarks, Set_env_cmd, Run_function] \<and>
   notified (ext (state_of (handle_key (sample False (Some (raising SystemExit)) False True) 113
       (sample_ui False [])))) = [] \<and>
   kbuf_keys (ext (state_of (handle_key (sample False (Some (raising SystemExit)) False True) 113
       (sample_ui False [])))) = [113]"
  by (simp add: handle_key_def run_command_def raising_def sample_simps sample_ui_def
      sample_env_def Let_def ret_def bind_act_def then_act_def try_except_def call_ext_def
      call_action_def outcome_def calls_of_def state_of_def)

subsection \<open>The title\<close>

text \<open>
  C7.  With the current directory \<open>/home/alice/a/b/c/d\<close>, the home directory
  \<open>/home/alice\<close> and \<open>shorten_title\<close> 2, on a terminal with a title and with title
  updates on, the path that \<open>draw\<close> writes into the title sequence is \<open>c/d\<close>.
\<close>

theorem draw_title_truncation:
  assumes "draw_title s" and "draw_widgets c (ext s) = (Inr (), x)"
    and "update_title (get_settings c x)"
    and "cwd_path c x = ''/home/alice/a/b/c/d''" and "home_path c x = ''/home/alice''"
    and "shorten_title (get_settings c x) = 2"
  shows "title_path (cwd_path c x) (home_path c x) (shorten_title (get_settings c x)) = ''c/d'' \<and>
         calls_of (draw c s) =
           [Touchwin, Draw_widgets, Stdout_write (title_sequence ''c/d''), Refresh]"
  using assms
  by (simp add: title_path_example draw_def bind_act_def then_act_def call_ext_def curses_def
      stdout_write_def calls_of_def)

theorem draw_title_truncation_witness:
  "calls_of (draw (sample False None False False) (sample_ui False [])) =
     [Touchwin, Draw_widgets, Stdout_write (title_sequence ''c/d''), Refresh]"
  using draw_title_truncation[of "sample_ui False []" "sample False None False False" sample_env]
  by (simp add: sample_ui_def sample_simps sample_settings_def)

subsection \<open>Suspending twice\<close>

text \<open>
  C8, as the code has it.  A second \<open>suspend\<close> leaves the state that the first one left:
  keypad off, cooked mode, echo on, the cursor visible (where the terminal can set it), no
  mouse reporting, detached.  It does not return, though: its \<open>endwin()\<close> raises at line 95,
  the screen not having been refreshed since the first.  The first \<open>suspend\<close> of a session
  that is not ended returns.
\<close>

theorem suspend_twice_same_state:
  "state_of (suspend (state_of (suspend s))) = state_of (suspend s) \<and>
   outcome (suspend (state_of (suspend s))) = Inl CursesError \<and>
   (\<not> ended (tty s) \<longrightarrow> outcome (suspend s) = Inr ()) \<and>
   \<not> keypad_on (tty (state_of (suspend s))) \<and>
   cbreak (tty (state_of (suspend s))) = Cooked \<and>
   echo_on (tty (state_of (suspend s))) \<and>
   cursor_vis (tty (state_of (suspend s))) =
     (if can_curs_set (tty s) then 1 else cursor_vis (tty s)) \<and>
   mouse_mask (tty (state_of (suspend s))) = 0 \<and>
   ended (tty (state_of (suspend s)))"
  by (simp add: suspend_eq outcome_def state_of_def)

theorem suspend_twice_same_state_witness:
  "outcome (suspend (sample_ui False [])) = Inr () \<and>
   state_of (suspend (state_of (suspend (sample_ui False [])))) =
     state_of (suspend (sample_ui False []))"
  using suspend_twice_same_state[of "sample_ui False []"]
  by (simp add: sample_ui_def sample_tty_def)

theorem second_suspend_raises_counterexample:
  "outcome (suspend (sample_ui False [])) = Inr () \<and>
   outcome (suspend (state_of (suspend (sample_ui False [])))) = Inl CursesError"
  by (simp add: suspend_eq outcome_def state_of_def sample_ui_def sample_tty_def)

subsection \<open>The load mode after \<open>initialize\<close>\<close>

text \<open>
  C9.  After \<open>initialize\<close> the load mode is off, whatever it was before, and reads wait
  with the timeout of two seconds.
\<close>

theorem initialize_resets_load_mode:
  "load_mode (state_of (initialize c s)) = False \<and>
   cbreak (tty (state_of (initialize c s))) = Half_delay 20 \<and>
   input_wait (tty (state_of (initialize c s))) = Tenths 20"
  by (simp add: initialize_facts input_wait_def)

subsection \<open>A command without a function\<close>

text \<open>
  C10.  When \<open>press\<close> declines the key, the key buffer reports no failure and holds a
  command, and the command has no function, \<open>handle_key\<close> clears the key buffer, whatever
  the \<open>done\<close> flag says; it runs nothing and notifies nothing.
\<close>

theorem no_function_clears_buffer:
  assumes "(case hint c of Some h \<Rightarrow> call_ext Hint h | None \<Rightarrow> ret ()) s = (Inr (), lh, s0)"
    and "key_append c key (ext s0) = (Inr (), x1)"
    and "press c key (s0\<lparr>ext := x1\<rparr>) = (Inr False, s2)"
    and "hide_bookmarks c (ext s2) = (Inr (), x3)"
    and "\<not> kbuf_failure c x3"
    and "kbuf_command c (ext s2) = Some cmd"
    and "cmd_function cmd = None"
  shows "handle_key c key s =
     (fst (kbuf_clear c (set_env_cmd c cmd x3)),
      lh @ [Key_append key, Press key, Hide_bookmarks, Set_env_cmd, Kbuf_clear],
      s2\<lparr>ext := snd (kbuf_clear c (set_env_cmd c cmd x3))\<rparr>)"
  using assms(7)
  by (simp add: handle_key_command[OF assms(1-6)] run_command_def call_ext_def
      outcome_def calls_of_def state_of_def split: prod.splits)

theorem no_function_clears_buffer_witness:
  "handle_key (sample False (Some no_function) False False) 122 (sample_ui False []) =
     (Inr (), [Key_append 122, Press 122, Hide_bookmarks, Set_env_cmd, Kbuf_clear],
      (sample_ui False [])\<lparr>ext := sample_env\<lparr>kbuf_keys := [], bookmarks_open := False\<rparr>\<rparr>)"
  using no_function_clears_buffer[of "sample False (Some no_function) False False"
      "sample_ui False []" "[]" "sample_ui False []" 122
      "sample_env\<lparr>kbuf_keys := [122]\<rparr>"
      "(sample_ui False [])\<lparr>ext := sample_env\<lparr>kbuf_keys := [122]\<rparr>\<rparr>"
      "sample_env\<lparr>kbuf_keys := [122], bookmarks_open := False\<rparr>" no_function]
  by (simp add: sample_simps ret_def sample_ui_def sample_env_def no_function_def)

end
